theory Spec2Isabelle
  imports Complex_Main
begin

section \<open>JavaScript values used by the page scripts\<close>

text \<open>
  Attribute reads (\<^verbatim>\<open>getAttribute\<close>) and storage reads (\<^verbatim>\<open>localStorage.getItem\<close>)
  return \<^verbatim>\<open>null\<close> or a string; they are modelled as \<open>string option\<close>.
  A value is truthy when it is neither \<^verbatim>\<open>null\<close> nor the empty string.
\<close>

definition truthy :: "string option \<Rightarrow> bool" where
  "truthy v = (case v of None \<Rightarrow> False | Some s \<Rightarrow> s \<noteq> [])"

text \<open>The expression \<^verbatim>\<open>a || b\<close> for a nullable string \<open>a\<close> and a string \<open>b\<close>.\<close>

definition js_or :: "string option \<Rightarrow> string \<Rightarrow> string" where
  "js_or a b = (case a of None \<Rightarrow> b | Some s \<Rightarrow> if s = [] then b else s)"

datatype js_error = TypeError

section \<open>ThemeManager\<close>

text \<open>
  The state the theme code reads and writes: the \<^verbatim>\<open>data-theme\<close> attribute of the
  document element, the \<^verbatim>\<open>theme\<close> key of \<^verbatim>\<open>localStorage\<close>, the two fields of the
  manager (\<^verbatim>\<open>themeToggle\<close> is present or not; \<^verbatim>\<open>themeIcon\<close> is absent or carries its
  text content) and the answer of \<^verbatim>\<open>matchMedia('(prefers-color-scheme: dark)')\<close>.
\<close>

record theme_state =
  data_theme :: "string option"
  saved_theme :: "string option"
  themeToggle :: bool
  themeIcon :: "string option"
  prefers_dark :: bool

text \<open>The two glyphs written to the icon, named by their code points.\<close>

definition sun_glyph :: string where
  "sun_glyph = ''U+2600 U+FE0F''"

definition moon_glyph :: string where
  "moon_glyph = ''U+1F319''"

definition getSystemPreference :: "theme_state \<Rightarrow> string" where
  "getSystemPreference st = (if prefers_dark st then ''dark'' else ''light'')"

definition getSavedTheme :: "theme_state \<Rightarrow> string option" where
  "getSavedTheme st = saved_theme st"

definition updateIcon :: "string \<Rightarrow> theme_state \<Rightarrow> theme_state" where
  "updateIcon theme st =
     (case themeIcon st of
        None \<Rightarrow> st
      | Some _ \<Rightarrow> st\<lparr>themeIcon := Some (if theme = ''dark'' then sun_glyph else moon_glyph)\<rparr>)"

definition setTheme :: "string \<Rightarrow> theme_state \<Rightarrow> theme_state" where
  "setTheme theme st =
     updateIcon theme (st\<lparr>data_theme := Some theme, saved_theme := Some theme\<rparr>)"

definition loadTheme :: "theme_state \<Rightarrow> theme_state" where
  "loadTheme st =
     (let savedTheme = getSavedTheme st;
          systemPreference = getSystemPreference st;
          theme = js_or savedTheme systemPreference
      in updateIcon theme (setTheme theme st))"

definition toggleTheme :: "theme_state \<Rightarrow> theme_state" where
  "toggleTheme st =
     (let currentTheme = js_or (data_theme st) ''light'';
          newTheme = (if currentTheme = ''light'' then ''dark'' else ''light'')
      in setTheme newTheme st)"

text \<open>
  \<^verbatim>\<open>bindEvents\<close> registers two listeners. A click on the toggle control can only be
  delivered when the control exists; a change of the system preference carries the new
  value of \<^verbatim>\<open>matches\<close>, which is also what \<^verbatim>\<open>matchMedia\<close> answers from then on.
\<close>

datatype theme_event = ToggleClick | SystemChange bool

definition on_toggle_click :: "theme_state \<Rightarrow> theme_state" where
  "on_toggle_click st = (if themeToggle st then toggleTheme st else st)"

definition on_system_change :: "bool \<Rightarrow> theme_state \<Rightarrow> theme_state" where
  "on_system_change matches st =
     (let st1 = st\<lparr>prefers_dark := matches\<rparr>
      in if \<not> truthy (getSavedTheme st1)
         then setTheme (if matches then ''dark'' else ''light'') st1
         else st1)"

fun theme_step :: "theme_state \<Rightarrow> theme_event \<Rightarrow> theme_state" where
  "theme_step st ToggleClick = on_toggle_click st"
| "theme_step st (SystemChange m) = on_system_change m st"

definition ThemeManager_init :: "theme_state \<Rightarrow> theme_state" where
  "ThemeManager_init st = loadTheme st"

definition theme_run :: "theme_state \<Rightarrow> theme_event list \<Rightarrow> theme_state" where
  "theme_run st evs = foldl theme_step (ThemeManager_init st) evs"

text \<open>A first visit: nothing stored, no attribute yet, the system prefers light.\<close>

definition first_visit :: theme_state where
  "first_visit = \<lparr>data_theme = None, saved_theme = None, themeToggle = True,
                   themeIcon = Some moon_glyph, prefers_dark = False\<rparr>"

section \<open>ReadingProgress\<close>

text \<open>
  A JavaScript number is a finite value, one of the two infinities, or NaN. Finite values
  are modelled as reals: rounding is left out (it is monotone and maps the interval from
  0 to 100 into itself, so it affects neither the order nor the range of the results
  below), and so is the sign of zero (the only divisor in this code is \<^verbatim>\<open>offsetHeight\<close>,
  a non-negative integer, hence never the negative zero).
\<close>

datatype jsnum = Num real | PosInf | NegInf | NaN

fun js_div :: "jsnum \<Rightarrow> jsnum \<Rightarrow> jsnum" where
  "js_div NaN _ = NaN"
| "js_div _ NaN = NaN"
| "js_div (Num a) (Num b) =
     (if b = 0 then (if a = 0 then NaN else if 0 < a then PosInf else NegInf)
      else Num (a / b))"
| "js_div (Num a) PosInf = Num 0"
| "js_div (Num a) NegInf = Num 0"
| "js_div PosInf (Num b) = (if b < 0 then NegInf else PosInf)"
| "js_div NegInf (Num b) = (if b < 0 then PosInf else NegInf)"
| "js_div PosInf PosInf = NaN"
| "js_div PosInf NegInf = NaN"
| "js_div NegInf PosInf = NaN"
| "js_div NegInf NegInf = NaN"

fun js_mul :: "jsnum \<Rightarrow> jsnum \<Rightarrow> jsnum" where
  "js_mul NaN _ = NaN"
| "js_mul _ NaN = NaN"
| "js_mul (Num a) (Num b) = Num (a * b)"
| "js_mul (Num a) PosInf = (if a = 0 then NaN else if 0 < a then PosInf else NegInf)"
| "js_mul (Num a) NegInf = (if a = 0 then NaN else if 0 < a then NegInf else PosInf)"
| "js_mul PosInf (Num b) = (if b = 0 then NaN else if 0 < b then PosInf else NegInf)"
| "js_mul NegInf (Num b) = (if b = 0 then NaN else if 0 < b then NegInf else PosInf)"
| "js_mul PosInf PosInf = PosInf"
| "js_mul PosInf NegInf = NegInf"
| "js_mul NegInf PosInf = NegInf"
| "js_mul NegInf NegInf = PosInf"

text \<open>The comparison \<^verbatim>\<open>a <= b\<close>: false as soon as one side is NaN.\<close>

fun js_le :: "jsnum \<Rightarrow> jsnum \<Rightarrow> bool" where
  "js_le NaN _ = False"
| "js_le _ NaN = False"
| "js_le NegInf _ = True"
| "js_le _ PosInf = True"
| "js_le (Num a) (Num b) = (a \<le> b)"
| "js_le (Num a) NegInf = False"
| "js_le PosInf (Num b) = False"
| "js_le PosInf NegInf = False"

text \<open>\<^verbatim>\<open>Math.max\<close> and \<^verbatim>\<open>Math.min\<close> of two arguments: NaN if either argument is NaN.\<close>

definition Math_max :: "jsnum \<Rightarrow> jsnum \<Rightarrow> jsnum" where
  "Math_max a b = (if a = NaN \<or> b = NaN then NaN else if js_le a b then b else a)"

definition Math_min :: "jsnum \<Rightarrow> jsnum \<Rightarrow> jsnum" where
  "Math_min a b = (if a = NaN \<or> b = NaN then NaN else if js_le a b then a else b)"

text \<open>
  The layout the scroll listener reads: the \<^verbatim>\<open>.post-content\<close> element (absent, or its
  \<^verbatim>\<open>offsetHeight\<close> and \<^verbatim>\<open>offsetTop\<close>, which the DOM gives as integers, the height
  non-negative), \<^verbatim>\<open>window.pageYOffset\<close>, \<^verbatim>\<open>document.documentElement.scrollTop\<close>
  and \<^verbatim>\<open>window.innerHeight\<close>. \<open>bar_width\<close> is the number last written, followed by
  a percent sign, to the width of the progress bar.
\<close>

record scroll_state =
  post_content :: "(nat \<times> int) option"
  pageYOffset :: real
  doc_scrollTop :: real
  innerHeight :: nat
  bar_width :: jsnum

text \<open>Lines 104 to 106: the percentage from the four geometry values.\<close>

definition scrollPercent :: "nat \<Rightarrow> int \<Rightarrow> real \<Rightarrow> nat \<Rightarrow> jsnum" where
  "scrollPercent contentHeight contentTop scrollTop windowHeight =
     Math_min (Num 100) (Math_max (Num 0)
       (js_mul (js_div (Num (scrollTop - real_of_int contentTop + real windowHeight))
                       (Num (real contentHeight)))
               (Num 100)))"

text \<open>\<^verbatim>\<open>window.pageYOffset || document.documentElement.scrollTop\<close>: zero is falsy.\<close>

definition current_scrollTop :: "scroll_state \<Rightarrow> real" where
  "current_scrollTop st = (if pageYOffset st \<noteq> 0 then pageYOffset st else doc_scrollTop st)"

definition on_scroll :: "scroll_state \<Rightarrow> scroll_state" where
  "on_scroll st =
     (case post_content st of
        None \<Rightarrow> st
      | Some (contentHeight, contentTop) \<Rightarrow>
          st\<lparr>bar_width :=
               scrollPercent contentHeight contentTop (current_scrollTop st) (innerHeight st)\<rparr>)"

text \<open>A number is a percentage when it is finite and between 0 and 100.\<close>

definition in_percent_range :: "jsnum \<Rightarrow> bool" where
  "in_percent_range x = (case x of Num r \<Rightarrow> 0 \<le> r \<and> r \<le> 100 | _ \<Rightarrow> False)"

section \<open>LazyLoader\<close>

text \<open>
  An image element: its \<^verbatim>\<open>src\<close> and \<^verbatim>\<open>data-src\<close> attributes, whether the loader's
  \<^verbatim>\<open>onload\<close> handler is installed, the two style properties that handler writes, and
  \<open>fetches\<close>, the number of times the loader has assigned \<^verbatim>\<open>src\<close> (each assignment
  starts a load of the resource).
\<close>

record img =
  src :: "string option"
  data_src :: "string option"
  onload_installed :: bool
  style_opacity :: "string option"
  style_filter :: "string option"
  fetches :: nat

definition loadImage :: "img \<Rightarrow> img" where
  "loadImage im =
     (if truthy (data_src im)
      then im\<lparr>src := data_src im, data_src := None, onload_installed := True,
              fetches := fetches im + 1\<rparr>
      else im)"

text \<open>The \<^verbatim>\<open>load\<close> event of an image runs the installed handler.\<close>

definition on_image_load :: "img \<Rightarrow> img" where
  "on_image_load im =
     (if onload_installed im
      then im\<lparr>style_opacity := Some ''1'', style_filter := Some ''blur(0px)''\<rparr>
      else im)"

text \<open>The selector \<^verbatim>\<open>img[data-src]\<close> matches an image whose attribute is present.\<close>

definition marked :: "img \<Rightarrow> bool" where
  "marked im = (data_src im \<noteq> None)"

text \<open>
  The loader's view of the page: the images in document order (an element is named by its
  position), whether \<^verbatim>\<open>this.observer\<close> was created, and the targets it observes.
\<close>

record lazy_state =
  images :: "img list"
  observer :: bool
  observed :: "nat set"

record entry =
  target :: nat
  isIntersecting :: bool

definition loadImage_at :: "nat \<Rightarrow> lazy_state \<Rightarrow> lazy_state" where
  "loadImage_at i st =
     (if i < length (images st) then st\<lparr>images := (images st)[i := loadImage (images st ! i)]\<rparr>
      else st)"

definition unobserve :: "nat \<Rightarrow> lazy_state \<Rightarrow> lazy_state" where
  "unobserve i st = st\<lparr>observed := observed st - {i}\<rparr>"

definition observe :: "nat \<Rightarrow> lazy_state \<Rightarrow> lazy_state" where
  "observe i st = st\<lparr>observed := insert i (observed st)\<rparr>"

definition on_entry :: "lazy_state \<Rightarrow> entry \<Rightarrow> lazy_state" where
  "on_entry st e =
     (if isIntersecting e then unobserve (target e) (loadImage_at (target e) st) else st)"

text \<open>The observer's callback: \<^verbatim>\<open>entries.forEach\<close>.\<close>

definition observer_callback :: "lazy_state \<Rightarrow> entry list \<Rightarrow> lazy_state" where
  "observer_callback st entries = foldl on_entry st entries"

definition marked_indices :: "img list \<Rightarrow> nat list" where
  "marked_indices ims = filter (\<lambda>i. marked (ims ! i)) [0..<length ims]"

definition observeImages :: "lazy_state \<Rightarrow> lazy_state" where
  "observeImages st = foldl (\<lambda>s i. observe i s) st (marked_indices (images st))"

definition loadAllImages :: "lazy_state \<Rightarrow> lazy_state" where
  "loadAllImages st = foldl (\<lambda>s i. loadImage_at i s) st (marked_indices (images st))"

text \<open>\<^verbatim>\<open>init\<close>, from whether \<^verbatim>\<open>'IntersectionObserver' in window\<close> holds and the page's images.\<close>

definition LazyLoader_init :: "bool \<Rightarrow> img list \<Rightarrow> lazy_state" where
  "LazyLoader_init has_observer ims =
     (if has_observer
      then observeImages \<lparr>images = ims, observer = True, observed = {}\<rparr>
      else loadAllImages \<lparr>images = ims, observer = False, observed = {}\<rparr>)"

text \<open>A run of the page: the callback is invoked once per notification, in order.\<close>

definition notify_all :: "lazy_state \<Rightarrow> entry list list \<Rightarrow> lazy_state" where
  "notify_all st batches = foldl observer_callback st batches"

text \<open>The image of the specification's example: \<^verbatim>\<open><img data-src="x.png">\<close>.\<close>

definition pending_img :: img where
  "pending_img = \<lparr>src = None, data_src = Some ''x.png'', onload_installed = False,
                   style_opacity = None, style_filter = None, fetches = 0\<rparr>"

section \<open>CodeBlockCopy\<close>

text \<open>
  \<^verbatim>\<open>navigator.clipboard\<close> is undefined outside secure contexts and in older browsers;
  where it exists, the promise of \<^verbatim>\<open>writeText\<close> is fulfilled or rejected.
\<close>

datatype clipboard_api = NoClipboardAPI | WriteFulfils | WriteRejects

text \<open>A promise reaction waiting to run after the current handler: the text and the outcome.\<close>

datatype reaction = Fulfilled string | Rejected string

text \<open>
  One code block after \<^verbatim>\<open>addCopyButton\<close>, with the parts of the browser its handlers
  touch: the inner text of the block's \<^verbatim>\<open>code\<close> element (\<open>None\<close> when
  \<^verbatim>\<open>pre.querySelector('code')\<close> is \<^verbatim>\<open>null\<close>), the button's markup and opacity, the
  clipboard facility and the clipboard's content, whether \<^verbatim>\<open>execCommand('copy')\<close>
  copies, the errors logged, the pending promise reactions, and the pending timers (due
  time in milliseconds, markup to write back) with the current time.
\<close>

record copy_state =
  code_text :: "string option"
  button_html :: string
  button_opacity :: string
  api :: clipboard_api
  clipboard :: "string option"
  exec_copy_works :: bool
  console_errors :: nat
  reactions :: "reaction list"
  timers :: "(nat \<times> string) list"
  clock :: nat

definition clipboard_glyph :: string where
  "clipboard_glyph = ''U+1F4CB''"

definition check_glyph :: string where
  "check_glyph = ''U+2705''"

text \<open>
  \<^verbatim>\<open>addCopyButton\<close> on a block: the button starts with the clipboard glyph and opacity 0.
\<close>

definition addCopyButton :: "string option \<Rightarrow> clipboard_api \<Rightarrow> bool \<Rightarrow> copy_state" where
  "addCopyButton code a ex =
     \<lparr>code_text = code, button_html = clipboard_glyph, button_opacity = ''0'', api = a,
      clipboard = None, exec_copy_works = ex, console_errors = 0, reactions = [],
      timers = [], clock = 0\<rparr>"

definition on_mouseenter :: "copy_state \<Rightarrow> copy_state" where
  "on_mouseenter st = st\<lparr>button_opacity := ''1''\<rparr>"

definition on_mouseleave :: "copy_state \<Rightarrow> copy_state" where
  "on_mouseleave st = st\<lparr>button_opacity := ''0''\<rparr>"

text \<open>
  \<^verbatim>\<open>copyToClipboard\<close>: reading \<^verbatim>\<open>writeText\<close> from an undefined
  \<^verbatim>\<open>navigator.clipboard\<close> throws; otherwise the call returns a promise whose reaction
  runs later.
\<close>

definition copyToClipboard :: "string \<Rightarrow> copy_state \<Rightarrow> js_error + copy_state" where
  "copyToClipboard text st =
     (case api st of
        NoClipboardAPI \<Rightarrow> Inl TypeError
      | WriteFulfils \<Rightarrow> Inr (st\<lparr>reactions := reactions st @ [Fulfilled text]\<rparr>)
      | WriteRejects \<Rightarrow> Inr (st\<lparr>reactions := reactions st @ [Rejected text]\<rparr>))"

text \<open>
  A fulfilled write has put the text on the clipboard. A rejected one runs the
  \<^verbatim>\<open>catch\<close> handler: log, then the text area and \<^verbatim>\<open>execCommand('copy')\<close>.
\<close>

fun run_reaction :: "copy_state \<Rightarrow> reaction \<Rightarrow> copy_state" where
  "run_reaction st (Fulfilled text) = st\<lparr>clipboard := Some text\<rparr>"
| "run_reaction st (Rejected text) =
     (let st1 = st\<lparr>console_errors := console_errors st + 1\<rparr>
      in if exec_copy_works st1 then st1\<lparr>clipboard := Some text\<rparr> else st1)"

definition run_reactions :: "copy_state \<Rightarrow> copy_state" where
  "run_reactions st = (foldl run_reaction st (reactions st))\<lparr>reactions := []\<rparr>"

text \<open>
  The click listener of the button. Reading \<^verbatim>\<open>innerText\<close> from \<^verbatim>\<open>null\<close> throws, and an
  exception ends the listener at once.
\<close>

definition on_copy_click :: "copy_state \<Rightarrow> js_error + copy_state" where
  "on_copy_click st =
     (case code_text st of
        None \<Rightarrow> Inl TypeError
      | Some code \<Rightarrow>
          (case copyToClipboard code st of
             Inl e \<Rightarrow> Inl e
           | Inr st1 \<Rightarrow>
               (let originalHTML = button_html st1
                in Inr (st1\<lparr>button_html := check_glyph,
                            timers := timers st1 @ [(clock st1 + 2000, originalHTML)]\<rparr>))))"

text \<open>
  Time passes: the clock moves on and every timer that is due fires, in the order the
  timers were set (all have the same delay, so this is the order in which they are due).
\<close>

fun fire_due :: "nat \<Rightarrow> (nat \<times> string) list \<Rightarrow> string \<Rightarrow> (nat \<times> string) list \<times> string" where
  "fire_due now [] html = ([], html)"
| "fire_due now ((due, h) # ts) html =
     (if due \<le> now then fire_due now ts h
      else (let (rest, html') = fire_due now ts html in ((due, h) # rest, html')))"

definition advance :: "nat \<Rightarrow> copy_state \<Rightarrow> copy_state" where
  "advance dt st =
     (let now = clock st + dt;
          (rest, html) = fire_due now (timers st) (button_html st)
      in (run_reactions st)\<lparr>clock := now, timers := rest, button_html := html\<rparr>)"

text \<open>A click that throws leaves the page as it was.\<close>

definition click :: "copy_state \<Rightarrow> copy_state" where
  "click st = (case on_copy_click st of Inl _ \<Rightarrow> st | Inr st' \<Rightarrow> st')"

text \<open>
  Two runs of a block whose code element holds \<^verbatim>\<open>x = 1\<close>: one click, and a click, a
  second of waiting, a second click and another second of waiting.
\<close>

definition one_click :: "clipboard_api \<Rightarrow> copy_state" where
  "one_click a = click (addCopyButton (Some ''x = 1'') a True)"

definition two_clicks :: "clipboard_api \<Rightarrow> copy_state" where
  "two_clicks a = advance 1000 (click (advance 1000 (one_click a)))"

text \<open>An intersecting entry for the first image of the page.\<close>

definition first_entry :: entry where
  "first_entry = \<lparr>target = 0, isIntersecting = True\<rparr>"

section \<open>Properties of ThemeManager\<close>

lemma setTheme_fields:
  "data_theme (setTheme t st) = Some t"
  "saved_theme (setTheme t st) = Some t"
  "themeToggle (setTheme t st) = themeToggle st"
  "prefers_dark (setTheme t st) = prefers_dark st"
  by (simp_all add: setTheme_def updateIcon_def split: option.splits)

lemma themeIcon_setTheme:
  "themeIcon (setTheme t st) =
     (case themeIcon st of None \<Rightarrow> None
      | Some _ \<Rightarrow> Some (if t = ''dark'' then sun_glyph else moon_glyph))"
  by (simp add: setTheme_def updateIcon_def split: option.splits)

lemma loadTheme_eq: "loadTheme st = setTheme (js_or (saved_theme st) (getSystemPreference st)) st"
  by (simp add: loadTheme_def Let_def getSavedTheme_def setTheme_def updateIcon_def
      split: option.splits)

lemma js_or_nonempty: "b \<noteq> [] \<Longrightarrow> js_or a b \<noteq> []"
  by (simp add: js_or_def split: option.splits)

lemma getSystemPreference_nonempty: "getSystemPreference st \<noteq> []"
  by (simp add: getSystemPreference_def)

text \<open>
  After construction the storage always holds a non-empty theme, because \<^verbatim>\<open>loadTheme\<close>
  goes through \<^verbatim>\<open>setTheme\<close>; every later event keeps it so.
\<close>

lemma init_saves: "truthy (saved_theme (ThemeManager_init st))"
  by (simp add: ThemeManager_init_def loadTheme_eq setTheme_fields truthy_def
      js_or_nonempty getSystemPreference_nonempty)

lemma toggleTheme_saves: "truthy (saved_theme (toggleTheme st))"
  by (simp add: toggleTheme_def Let_def setTheme_fields truthy_def)

lemma theme_step_saves: "truthy (saved_theme st) \<Longrightarrow> truthy (saved_theme (theme_step st ev))"
  by (cases ev)
     (simp_all add: on_toggle_click_def toggleTheme_saves on_system_change_def
        getSavedTheme_def Let_def)

lemma foldl_theme_step_saves:
  "truthy (saved_theme st) \<Longrightarrow> truthy (saved_theme (foldl theme_step st evs))"
  by (induction evs arbitrary: st) (simp_all add: theme_step_saves)

lemma theme_run_saves: "truthy (saved_theme (theme_run st evs))"
  by (simp add: theme_run_def foldl_theme_step_saves init_saves)

text \<open>
  With a stored theme the listener for the system preference changes nothing but the
  preference it records: a stored choice overrides the system.
\<close>

lemma saved_choice_overrides:
  "truthy (saved_theme st) \<Longrightarrow> on_system_change m st = st\<lparr>prefers_dark := m\<rparr>"
  by (simp add: on_system_change_def Let_def getSavedTheme_def)

text \<open>Hence no change of the system preference after construction reaches the document.\<close>

lemma system_change_after_init_ignored:
  "data_theme (theme_run st (evs @ [SystemChange m])) = data_theme (theme_run st evs)"
proof -
  have "truthy (saved_theme (theme_run st evs))"
    by (rule theme_run_saves)
  then have "on_system_change m (theme_run st evs) = (theme_run st evs)\<lparr>prefers_dark := m\<rparr>"
    by (rule saved_choice_overrides)
  then show ?thesis
    by (simp add: theme_run_def)
qed

text \<open>
  C1. The claim: when the listener for the system preference fires and nothing is stored,
  the theme is applied to the document without a write to the storage, which is written
  on a click of the toggle only. The code writes the storage on both other paths: run on
  a state with nothing stored, the listener stores the theme it applies, and the
  construction of the manager on a first visit stores the system's theme, with no click.
\<close>

theorem system_change_writes_storage:
  "saved_theme first_visit = None
   \<and> data_theme (on_system_change True first_visit) = Some ''dark''
   \<and> saved_theme (on_system_change True first_visit) = Some ''dark''
   \<and> saved_theme (ThemeManager_init first_visit) = Some ''light''"
  by (simp add: first_visit_def on_system_change_def Let_def getSavedTheme_def truthy_def
      setTheme_fields ThemeManager_init_def loadTheme_eq js_or_def getSystemPreference_def)

text \<open>
  C2. The claim: while the user has made no choice, the effective theme equals the
  system preference and follows its changes. On a first visit (nothing stored, the
  system prefers light), after the system preference changes to dark and with no click
  at all, the system preference is dark and the document's theme is still light.
\<close>

theorem system_change_not_followed:
  "getSystemPreference (theme_run first_visit [SystemChange True]) = ''dark''
   \<and> data_theme (theme_run first_visit [SystemChange True]) = Some ''light''"
  by (simp add: theme_run_def first_visit_def on_system_change_def Let_def getSavedTheme_def
      truthy_def setTheme_fields ThemeManager_init_def loadTheme_eq js_or_def
      getSystemPreference_def)

lemma toggleTheme_data_theme:
  "data_theme (toggleTheme st) =
     Some (if js_or (data_theme st) ''light'' = ''light'' then ''dark'' else ''light'')"
  by (simp add: toggleTheme_def Let_def setTheme_fields)

lemma toggleTheme_setTheme_light: "toggleTheme (setTheme ''light'' st) = setTheme ''dark'' st"
  by (simp add: toggleTheme_def Let_def setTheme_def updateIcon_def js_or_def
      split: option.splits)

lemma toggleTheme_setTheme_dark: "toggleTheme (setTheme ''dark'' st) = setTheme ''light'' st"
  by (simp add: toggleTheme_def Let_def setTheme_def updateIcon_def js_or_def
      split: option.splits)

lemma setTheme_setTheme: "setTheme a (setTheme b st) = setTheme a st"
  by (simp add: setTheme_def updateIcon_def split: option.splits)

lemma toggleTheme_as_setTheme:
  "toggleTheme st = setTheme ''light'' st \<or> toggleTheme st = setTheme ''dark'' st"
  by (simp add: toggleTheme_def Let_def)

text \<open>
  Two toggles can only give back a state in which light or dark is already applied, so
  the amended statement of C9 below covers every state on which toggling is involutive.
\<close>

lemma toggle_twice_fixed_only:
  assumes "toggleTheme (toggleTheme st) = st"
  shows "st = setTheme ''light'' st \<or> st = setTheme ''dark'' st"
proof -
  from toggleTheme_as_setTheme [of "toggleTheme st"] assms
  have "st = setTheme ''light'' (toggleTheme st) \<or> st = setTheme ''dark'' (toggleTheme st)"
    by auto
  with toggleTheme_as_setTheme [of st] show ?thesis
    by (auto simp add: setTheme_setTheme)
qed

text \<open>
  C9, as the claim states it, fails: from a document with no theme attribute two toggles
  end in light, and from a theme that is neither light nor dark (here one read from the
  storage at construction) they end in dark. Neither is the state they started from.
\<close>

theorem toggle_twice_counterexample:
  "data_theme first_visit = None
   \<and> data_theme (toggleTheme (toggleTheme first_visit)) = Some ''light''
   \<and> toggleTheme (toggleTheme first_visit) \<noteq> first_visit
   \<and> data_theme (ThemeManager_init (first_visit\<lparr>saved_theme := Some ''sepia''\<rparr>)) = Some ''sepia''
   \<and> data_theme (toggleTheme (toggleTheme
         (ThemeManager_init (first_visit\<lparr>saved_theme := Some ''sepia''\<rparr>)))) = Some ''dark''"
proof -
  have a: "data_theme first_visit = None"
    by (simp add: first_visit_def)
  have b: "data_theme (toggleTheme (toggleTheme first_visit)) = Some ''light''"
    by (simp add: toggleTheme_data_theme a js_or_def)
  have c: "toggleTheme (toggleTheme first_visit) \<noteq> first_visit"
    using a b by auto
  have d: "data_theme (ThemeManager_init (first_visit\<lparr>saved_theme := Some ''sepia''\<rparr>))
           = Some ''sepia''"
    by (simp add: ThemeManager_init_def loadTheme_eq setTheme_fields js_or_def)
  have e: "data_theme (toggleTheme (toggleTheme
         (ThemeManager_init (first_visit\<lparr>saved_theme := Some ''sepia''\<rparr>)))) = Some ''dark''"
    by (simp add: toggleTheme_data_theme d js_or_def)
  from a b c d e show ?thesis by simp
qed

text \<open>
  C9, amended: on every state in which \<^verbatim>\<open>setTheme\<close> has applied light or dark (the
  attribute, the stored value and the icon agree on that theme, as after any toggle),
  two calls of \<^verbatim>\<open>toggleTheme\<close> give back exactly that state.
\<close>

theorem toggle_twice_applied:
  assumes "t = ''light'' \<or> t = ''dark''"
  shows "toggleTheme (toggleTheme (setTheme t st)) = setTheme t st"
  using assms by (auto simp add: toggleTheme_setTheme_light toggleTheme_setTheme_dark)

theorem toggle_twice_applied_witness:
  "toggleTheme (toggleTheme (setTheme ''dark'' first_visit)) = setTheme ''dark'' first_visit
   \<and> data_theme (setTheme ''dark'' first_visit) = Some ''dark''"
  using toggle_twice_applied [of "''dark''" first_visit]
  by (simp add: setTheme_fields)

text \<open>
  C10, as the claim states it, fails: with the attribute absent the current theme
  defaults to light, so the toggle sets dark, not light.
\<close>

theorem toggle_absent_counterexample:
  "data_theme first_visit = None
   \<and> data_theme (toggleTheme first_visit) = Some ''dark''
   \<and> data_theme (toggleTheme first_visit) \<noteq> Some ''light''"
  by (simp add: toggleTheme_data_theme first_visit_def js_or_def)

text \<open>
  C10, amended: \<^verbatim>\<open>toggleTheme\<close> sets dark when the attribute is light, absent or
  the empty string, and light for every other value; it stores the same value, so after a
  toggle the attribute and the stored value are equal and one of light and dark.
\<close>

theorem toggleTheme_result:
  "data_theme (toggleTheme st) =
     Some (if data_theme st = Some ''light'' \<or> data_theme st = None \<or> data_theme st = Some []
           then ''dark'' else ''light'')
   \<and> saved_theme (toggleTheme st) = data_theme (toggleTheme st)
   \<and> (data_theme (toggleTheme st) = Some ''light'' \<or> data_theme (toggleTheme st) = Some ''dark'')"
  by (auto simp add: toggleTheme_def Let_def setTheme_fields js_or_def split: option.splits)

theorem toggleTheme_result_witness:
  "data_theme (toggleTheme (setTheme ''light'' first_visit)) = Some ''dark''
   \<and> saved_theme (toggleTheme (setTheme ''light'' first_visit)) = Some ''dark''
   \<and> data_theme (toggleTheme (setTheme ''sepia'' first_visit)) = Some ''light''
   \<and> saved_theme (toggleTheme (setTheme ''sepia'' first_visit)) = Some ''light''"
  using toggleTheme_result [of "setTheme ''light'' first_visit"]
    toggleTheme_result [of "setTheme ''sepia'' first_visit"]
  by (simp add: setTheme_fields)

section \<open>Properties of ReadingProgress\<close>

lemma Math_max_Num: "Math_max (Num a) (Num b) = Num (max a b)"
  by (simp add: Math_max_def max_def)

lemma Math_min_Num: "Math_min (Num a) (Num b) = Num (min a b)"
  by (simp add: Math_min_def min_def)

text \<open>With a positive content height every step of the computation is finite.\<close>

lemma scrollPercent_positive_height:
  assumes "0 < contentHeight"
  shows "scrollPercent contentHeight contentTop scrollTop windowHeight =
           Num (min 100 (max 0
             ((scrollTop - real_of_int contentTop + real windowHeight) / real contentHeight * 100)))"
  using assms by (simp add: scrollPercent_def Math_max_Num Math_min_Num)

lemma scrollPercent_positive_height_in_range:
  assumes "0 < contentHeight"
  shows "in_percent_range (scrollPercent contentHeight contentTop scrollTop windowHeight)"
  using assms by (simp add: scrollPercent_positive_height in_percent_range_def)

text \<open>
  With content of height zero the quotient is an infinity, which the clamp handles, unless
  the numerator is zero as well.
\<close>

lemma scrollPercent_zero_height:
  "scrollPercent 0 contentTop scrollTop windowHeight =
     (if scrollTop - real_of_int contentTop + real windowHeight = 0 then NaN
      else if 0 < scrollTop - real_of_int contentTop + real windowHeight then Num 100
      else Num 0)"
  by (simp add: scrollPercent_def Math_max_def Math_min_def)

lemma scrollPercent_in_range_iff:
  "in_percent_range (scrollPercent contentHeight contentTop scrollTop windowHeight)
     \<longleftrightarrow> \<not> (contentHeight = 0 \<and> scrollTop - real_of_int contentTop + real windowHeight = 0)"
proof (cases "contentHeight = 0")
  case True
  then show ?thesis
    by (simp add: scrollPercent_zero_height in_percent_range_def)
next
  case False
  then show ?thesis
    by (simp add: scrollPercent_positive_height_in_range)
qed

lemma scrollPercent_positive_height_mono:
  assumes "0 < contentHeight" and "s1 \<le> s2"
  shows "js_le (scrollPercent contentHeight contentTop s1 windowHeight)
               (scrollPercent contentHeight contentTop s2 windowHeight)"
proof -
  let ?q = "\<lambda>s. (s - real_of_int contentTop + real windowHeight) / real contentHeight * 100"
  from assms have "?q s1 \<le> ?q s2"
    by (simp add: divide_right_mono)
  then have "min 100 (max 0 (?q s1)) \<le> min 100 (max 0 (?q s2))"
    by (simp add: min_def max_def)
  with assms(1) show ?thesis
    by (simp only: scrollPercent_positive_height js_le.simps)
qed

text \<open>
  C4. The claim: for every geometry, content of height zero included, the percentage the
  scroll listener computes lies between 0 and 100. An empty content region (height 0)
  that starts 1000 pixels down the page, a viewport 600 pixels high and a scroll offset
  of 400 give 0 / 0: the result is NaN, the clamp passes it on, and the listener writes
  it to the bar.
\<close>

theorem scrollPercent_zero_height_NaN:
  "scrollPercent 0 1000 400 600 = NaN
   \<and> \<not> in_percent_range (scrollPercent 0 1000 400 600)
   \<and> bar_width (on_scroll \<lparr>post_content = Some (0, 1000), pageYOffset = 400,
        doc_scrollTop = 400, innerHeight = 600, bar_width = Num 0\<rparr>) = NaN"
  by (simp add: scrollPercent_zero_height in_percent_range_def on_scroll_def
      current_scrollTop_def)

text \<open>
  C5. The claim: for any fixed geometry the percentage does not decrease as the scroll
  offset grows. With the geometry of C4 (height 0, top 1000, viewport 600) the offsets
  300, 400, 500 give 0, NaN, 100: the value at 400 is not a number, and neither
  comparison with its neighbours holds.
\<close>

theorem scrollPercent_zero_height_not_monotone:
  "scrollPercent 0 1000 300 600 = Num 0
   \<and> scrollPercent 0 1000 400 600 = NaN
   \<and> scrollPercent 0 1000 500 600 = Num 100
   \<and> \<not> js_le (scrollPercent 0 1000 300 600) (scrollPercent 0 1000 400 600)
   \<and> \<not> js_le (scrollPercent 0 1000 400 600) (scrollPercent 0 1000 500 600)"
  by (simp add: scrollPercent_zero_height)

section \<open>Properties of LazyLoader\<close>

lemma loadImage_not_truthy: "\<not> truthy (data_src (loadImage im))"
  by (simp add: loadImage_def truthy_def)

lemma loadImage_idem: "loadImage (loadImage im) = loadImage im"
  using loadImage_not_truthy [of im] by (simp add: loadImage_def [of "loadImage im"])

lemma loadImage_unmarked: "\<not> marked im \<Longrightarrow> loadImage im = im"
  by (simp add: marked_def loadImage_def truthy_def)

lemma fetches_loadImage: "fetches (loadImage im) \<le> fetches im + 1"
  by (simp add: loadImage_def)

lemma length_loadImage_at: "length (images (loadImage_at j st)) = length (images st)"
  by (simp add: loadImage_at_def)

lemma nth_loadImage_at:
  "k < length (images st) \<Longrightarrow>
   images (loadImage_at j st) ! k = (if j = k then loadImage (images st ! k) else images st ! k)"
  by (simp add: loadImage_at_def)

lemma length_on_entry: "length (images (on_entry st e)) = length (images st)"
  by (simp add: on_entry_def unobserve_def length_loadImage_at)

lemma nth_on_entry:
  "k < length (images st) \<Longrightarrow>
   images (on_entry st e) ! k =
     (if isIntersecting e \<and> target e = k then loadImage (images st ! k) else images st ! k)"
  by (simp add: on_entry_def unobserve_def nth_loadImage_at)

lemma observed_on_entry:
  "observed (on_entry st e) = (if isIntersecting e then observed st - {target e} else observed st)"
  by (simp add: on_entry_def unobserve_def loadImage_at_def)

text \<open>The callback never starts an observation: the observed set only shrinks.\<close>

lemma observed_callback_subset: "observed (foldl on_entry st es) \<subseteq> observed st"
proof (induction es arbitrary: st)
  case Nil
  show ?case by simp
next
  case (Cons e es)
  have "observed (foldl on_entry (on_entry st e) es) \<subseteq> observed (on_entry st e)"
    by (rule Cons.IH)
  also have "\<dots> \<subseteq> observed st"
    by (simp add: observed_on_entry)
  finally show ?case by simp
qed

lemma callback_unobserves:
  "e \<in> set es \<Longrightarrow> isIntersecting e \<Longrightarrow> target e \<notin> observed (foldl on_entry st es)"
proof (induction es arbitrary: st)
  case Nil
  then show ?case by simp
next
  case (Cons x es)
  show ?case
  proof (cases "e \<in> set es")
    case True
    with Cons show ?thesis by simp
  next
    case False
    with Cons.prems have "x = e" by simp
    with Cons.prems have "target e \<notin> observed (on_entry st x)"
      by (simp add: observed_on_entry)
    with observed_callback_subset [of "on_entry st x" es] show ?thesis
      by auto
  qed
qed

text \<open>
  Whatever entries arrive, an image is either as the page gave it or the result of one
  \<^verbatim>\<open>loadImage\<close>: a second call finds no \<^verbatim>\<open>data-src\<close> and does nothing.
\<close>

lemma on_entry_once:
  assumes "length (images st) = n" and "k < n"
    and "images st ! k = im \<or> images st ! k = loadImage im"
  shows "length (images (on_entry st e)) = n
         \<and> (images (on_entry st e) ! k = im \<or> images (on_entry st e) ! k = loadImage im)"
  using assms by (auto simp add: length_on_entry nth_on_entry loadImage_idem)

lemma callback_once:
  assumes "length (images st) = n" and "k < n"
    and "images st ! k = im \<or> images st ! k = loadImage im"
  shows "length (images (foldl on_entry st es)) = n
         \<and> (images (foldl on_entry st es) ! k = im
            \<or> images (foldl on_entry st es) ! k = loadImage im)"
  using assms
proof (induction es arbitrary: st)
  case Nil
  then show ?case by simp
next
  case (Cons e es)
  from on_entry_once [OF Cons.prems, of e]
  have "length (images (on_entry st e)) = n"
    and "images (on_entry st e) ! k = im \<or> images (on_entry st e) ! k = loadImage im"
    by simp_all
  from Cons.IH [OF this(1) Cons.prems(2) this(2)] show ?case
    by simp
qed

lemma notify_all_once:
  assumes "length (images st) = n" and "k < n"
    and "images st ! k = im \<or> images st ! k = loadImage im"
  shows "length (images (notify_all st bs)) = n
         \<and> (images (notify_all st bs) ! k = im \<or> images (notify_all st bs) ! k = loadImage im)"
  using assms
proof (induction bs arbitrary: st)
  case Nil
  then show ?case by (simp add: notify_all_def)
next
  case (Cons b bs)
  from callback_once [OF Cons.prems, of b]
  have "length (images (observer_callback st b)) = n"
    and "images (observer_callback st b) ! k = im
         \<or> images (observer_callback st b) ! k = loadImage im"
    by (simp_all add: observer_callback_def)
  from Cons.IH [OF this(1) Cons.prems(2) this(2)] show ?case
    by (simp add: notify_all_def)
qed

lemma images_observe_fold: "images (foldl (\<lambda>s i. observe i s) st js) = images st"
  by (induction js arbitrary: st) (simp_all add: observe_def)

lemma images_init_observer: "images (LazyLoader_init True ims) = ims"
  by (simp add: LazyLoader_init_def observeImages_def images_observe_fold)

lemma length_loadImage_fold:
  "length (images (foldl (\<lambda>s i. loadImage_at i s) st js)) = length (images st)"
  by (induction js arbitrary: st) (simp_all add: length_loadImage_at)

lemma nth_loadImage_fold:
  "k < length (images st) \<Longrightarrow>
   images (foldl (\<lambda>s i. loadImage_at i s) st js) ! k =
     (if k \<in> set js then loadImage (images st ! k) else images st ! k)"
proof (induction js arbitrary: st)
  case Nil
  then show ?case by simp
next
  case (Cons j js)
  then have "k < length (images (loadImage_at j st))"
    by (simp add: length_loadImage_at)
  from Cons.IH [OF this] Cons.prems show ?case
    by (simp add: nth_loadImage_at loadImage_idem)
qed

lemma set_marked_indices: "set (marked_indices ims) = {i. i < length ims \<and> marked (ims ! i)}"
  by (auto simp add: marked_indices_def)

lemma length_init_fallback: "length (images (LazyLoader_init False ims)) = length ims"
  by (simp add: LazyLoader_init_def loadAllImages_def length_loadImage_fold)

lemma nth_init_fallback:
  "i < length ims \<Longrightarrow>
   images (LazyLoader_init False ims) ! i = (if marked (ims ! i) then loadImage (ims ! i) else ims ! i)"
  by (simp add: LazyLoader_init_def loadAllImages_def nth_loadImage_fold set_marked_indices)

text \<open>
  C7. After \<^verbatim>\<open>loadImage\<close> on an image that carries a deferred source (the attribute
  is present and not empty, which is what the test \<^verbatim>\<open>if (src)\<close> asks), \<^verbatim>\<open>src\<close> is
  that value and \<^verbatim>\<open>data-src\<close> is absent; with no such value (the attribute absent or
  empty) the image is returned unchanged. Without the intersection facility,
  construction leaves every marked image as \<^verbatim>\<open>loadImage\<close> makes it, and every other
  image and the number of images as they were.
\<close>

theorem loadImage_contract:
  "(data_src im = Some v \<and> v \<noteq> [] \<longrightarrow>
      src (loadImage im) = Some v \<and> data_src (loadImage im) = None)
   \<and> (data_src im = None \<or> data_src im = Some [] \<longrightarrow> loadImage im = im)
   \<and> (i < length ims \<and> marked (ims ! i) \<longrightarrow>
        images (LazyLoader_init False ims) ! i = loadImage (ims ! i))
   \<and> (i < length ims \<and> \<not> marked (ims ! i) \<longrightarrow>
        images (LazyLoader_init False ims) ! i = ims ! i)
   \<and> length (images (LazyLoader_init False ims)) = length ims"
proof -
  have "data_src im = Some v \<and> v \<noteq> [] \<longrightarrow>
          src (loadImage im) = Some v \<and> data_src (loadImage im) = None"
    by (simp add: loadImage_def truthy_def)
  moreover have "data_src im = None \<or> data_src im = Some [] \<longrightarrow> loadImage im = im"
    by (auto simp add: loadImage_def truthy_def)
  moreover have "i < length ims \<and> marked (ims ! i) \<longrightarrow>
          images (LazyLoader_init False ims) ! i = loadImage (ims ! i)"
    by (simp add: nth_init_fallback)
  moreover have "i < length ims \<and> \<not> marked (ims ! i) \<longrightarrow>
          images (LazyLoader_init False ims) ! i = ims ! i"
    by (simp add: nth_init_fallback)
  ultimately show ?thesis
    by (simp only: length_init_fallback simp_thms)
qed

theorem loadImage_contract_witness:
  "src (loadImage pending_img) = Some ''x.png''
   \<and> data_src (loadImage pending_img) = None
   \<and> loadImage (loadImage pending_img) = loadImage pending_img
   \<and> src (images (LazyLoader_init False [pending_img, loadImage pending_img]) ! 0)
       = Some ''x.png''
   \<and> data_src (images (LazyLoader_init False [pending_img, loadImage pending_img]) ! 0) = None
   \<and> images (LazyLoader_init False [pending_img, loadImage pending_img]) ! 1
       = loadImage pending_img"
proof -
  have d: "data_src pending_img = Some ''x.png''"
    by (simp add: pending_img_def)
  have s: "src (loadImage pending_img) = Some ''x.png''"
      "data_src (loadImage pending_img) = None"
    using loadImage_contract [of pending_img "''x.png''" 0 "[]"] d by simp_all
  have m: "marked pending_img" "\<not> marked (loadImage pending_img)"
    using d s by (simp_all add: marked_def)
  have i: "loadImage (loadImage pending_img) = loadImage pending_img"
    using loadImage_contract [of "loadImage pending_img" "[]" 0 "[]"] s by simp
  have f0: "images (LazyLoader_init False [pending_img, loadImage pending_img]) ! 0
            = loadImage pending_img"
    using loadImage_contract [of pending_img "[]" 0 "[pending_img, loadImage pending_img]"] m
    by simp
  have f1: "images (LazyLoader_init False [pending_img, loadImage pending_img]) ! 1
            = loadImage pending_img"
    using loadImage_contract [of pending_img "[]" 1 "[pending_img, loadImage pending_img]"] m
    by simp
  from s i f0 f1 show ?thesis by simp
qed

text \<open>
  C8. For every sequence of intersection notifications after construction with the
  intersection facility, each image of the page has had its source assigned at most once
  more than before, and is either as the page gave it or as one \<^verbatim>\<open>loadImage\<close> makes
  it; the callback turns the target of an intersecting entry into \<^verbatim>\<open>loadImage\<close> of
  it, and when the callback returns no target of an intersecting entry is observed any
  more.
\<close>

theorem each_image_loaded_at_most_once:
  "(i < length ims \<longrightarrow>
      fetches (images (notify_all (LazyLoader_init True ims) batches) ! i)
        \<le> fetches (ims ! i) + 1
      \<and> (images (notify_all (LazyLoader_init True ims) batches) ! i = ims ! i
         \<or> images (notify_all (LazyLoader_init True ims) batches) ! i = loadImage (ims ! i)))
   \<and> (isIntersecting e \<and> target e < length (images st) \<longrightarrow>
        images (on_entry st e) ! target e = loadImage (images st ! target e)
        \<and> target e \<notin> observed (on_entry st e))
   \<and> (e \<in> set entries \<and> isIntersecting e \<longrightarrow>
        target e \<notin> observed (observer_callback st entries))"
proof -
  have "fetches (images (notify_all (LazyLoader_init True ims) batches) ! i)
          \<le> fetches (ims ! i) + 1
        \<and> (images (notify_all (LazyLoader_init True ims) batches) ! i = ims ! i
           \<or> images (notify_all (LazyLoader_init True ims) batches) ! i = loadImage (ims ! i))"
    if "i < length ims"
  proof -
    have "images (LazyLoader_init True ims) ! i = ims ! i
          \<or> images (LazyLoader_init True ims) ! i = loadImage (ims ! i)"
      by (simp add: images_init_observer)
    from notify_all_once [OF _ that this, of batches]
    have "images (notify_all (LazyLoader_init True ims) batches) ! i = ims ! i
          \<or> images (notify_all (LazyLoader_init True ims) batches) ! i = loadImage (ims ! i)"
      by (simp add: images_init_observer)
    then show ?thesis
      using fetches_loadImage [of "ims ! i"] by auto
  qed
  moreover have "images (on_entry st e) ! target e = loadImage (images st ! target e)
        \<and> target e \<notin> observed (on_entry st e)"
    if "isIntersecting e \<and> target e < length (images st)"
    using that by (simp add: nth_on_entry observed_on_entry)
  moreover have "target e \<notin> observed (observer_callback st entries)"
    if "e \<in> set entries \<and> isIntersecting e"
    using that by (simp add: observer_callback_def callback_unobserves)
  ultimately show ?thesis by blast
qed

theorem each_image_loaded_at_most_once_witness:
  "fetches (images (notify_all (LazyLoader_init True [pending_img])
                      [[first_entry], [first_entry, first_entry]]) ! 0) \<le> 1
   \<and> images (on_entry (LazyLoader_init True [pending_img]) first_entry) ! 0
       = loadImage pending_img
   \<and> 0 \<in> observed (LazyLoader_init True [pending_img])
   \<and> 0 \<notin> observed (on_entry (LazyLoader_init True [pending_img]) first_entry)
   \<and> 0 \<notin> observed (observer_callback (LazyLoader_init True [pending_img]) [first_entry])"
proof -
  have e: "isIntersecting first_entry" "target first_entry = 0"
    by (simp_all add: first_entry_def)
  have f: "fetches pending_img = 0"
    by (simp add: pending_img_def)
  have o: "0 \<in> observed (LazyLoader_init True [pending_img])"
    by (simp add: LazyLoader_init_def observeImages_def marked_indices_def marked_def
        pending_img_def observe_def)
  from each_image_loaded_at_most_once
    [where i = 0 and ims = "[pending_img]"
       and batches = "[[first_entry], [first_entry, first_entry]]"
       and e = first_entry and st = "LazyLoader_init True [pending_img]"
       and entries = "[first_entry]"]
  show ?thesis
    using e f o by (simp add: images_init_observer)
qed

section \<open>Properties of CodeBlockCopy\<close>

lemma click_without_code: "code_text st = None \<Longrightarrow> on_copy_click st = Inl TypeError"
  by (simp add: on_copy_click_def)

lemma click_without_clipboard_api:
  "api st = NoClipboardAPI \<Longrightarrow> on_copy_click st = Inl TypeError"
  by (simp add: on_copy_click_def copyToClipboard_def split: option.splits)

text \<open>
  Where the block has a code element and the clipboard facility exists, the click
  acknowledges at once and sets the timer, whether the write is fulfilled or rejected.
\<close>

lemma click_acknowledges:
  assumes "code_text st = Some code" and "api st \<noteq> NoClipboardAPI"
  shows "\<exists>st'. on_copy_click st = Inr st'
           \<and> button_html st' = check_glyph
           \<and> timers st' = timers st @ [(clock st + 2000, button_html st)]"
  using assms
  by (cases "api st") (simp_all add: on_copy_click_def copyToClipboard_def Let_def)

lemma one_click_acknowledged:
  assumes "a \<noteq> NoClipboardAPI"
  shows "button_html (one_click a) = check_glyph"
    and "button_html (advance 1999 (one_click a)) = check_glyph"
    and "button_html (advance 2000 (one_click a)) = clipboard_glyph"
  using assms
  by (cases a; simp add: one_click_def click_def on_copy_click_def copyToClipboard_def
      addCopyButton_def Let_def advance_def)+

lemma one_click_copies:
  "clipboard (advance 0 (one_click WriteFulfils)) = Some ''x = 1''"
  "clipboard (advance 0 (one_click WriteRejects)) = Some ''x = 1''"
  "console_errors (advance 0 (one_click WriteRejects)) = 1"
  by (simp_all add: one_click_def click_def on_copy_click_def copyToClipboard_def
      addCopyButton_def Let_def advance_def run_reactions_def)

text \<open>
  C3. The claim: no listener lets an exception out, and the click listener of the copy
  button completes for every block it was attached to, one without a code element
  included. For such a block \<^verbatim>\<open>pre.querySelector('code')\<close> is \<^verbatim>\<open>null\<close>, and
  reading \<^verbatim>\<open>innerText\<close> from it throws.
\<close>

theorem copy_click_without_code_throws:
  "code_text (addCopyButton None WriteFulfils True) = None
   \<and> on_copy_click (addCopyButton None WriteFulfils True) = Inl TypeError"
  by (simp add: on_copy_click_def addCopyButton_def)

text \<open>
  C6. The claim: every click swaps the icon to the check mark at once and restores the
  original icon 2000 ms later, whatever the copy does. Without the clipboard facility the
  copy throws inside the listener and the icon is never swapped. With it, a second click
  one second after the first reads the check mark as the original markup: one second
  later the first timer puts the clipboard glyph back, and 2000 ms after the second click
  its own timer writes the check mark, which then stays, no timer being left.
\<close>

theorem copy_acknowledgment_fails:
  "on_copy_click (addCopyButton (Some ''x = 1'') NoClipboardAPI True) = Inl TypeError
   \<and> button_html (one_click NoClipboardAPI) = clipboard_glyph
   \<and> timers (one_click NoClipboardAPI) = []
   \<and> clock (two_clicks WriteFulfils) = 2000
   \<and> button_html (two_clicks WriteFulfils) = clipboard_glyph
   \<and> clock (advance 1000 (two_clicks WriteFulfils)) = 3000
   \<and> button_html (advance 1000 (two_clicks WriteFulfils)) = check_glyph
   \<and> timers (advance 1000 (two_clicks WriteFulfils)) = []
   \<and> check_glyph \<noteq> clipboard_glyph"
  by (simp add: check_glyph_def clipboard_glyph_def two_clicks_def one_click_def click_def on_copy_click_def copyToClipboard_def
      addCopyButton_def Let_def advance_def run_reactions_def)

end
